theory Spec2Isabelle
  imports Main
begin

section \<open>Strings\<close>

text \<open>
  The script lowercases two kinds of Python \<open>str\<close> values with \<open>str.lower()\<close>: format
  tags and column names.

  A format tag is only compared with the ASCII literals \<open>json\<close>, \<open>csv\<close> and
  \<open>parquet\<close>. For that comparison it is enough to know what \<open>str.lower()\<close> does to
  the ASCII letters (the code points 65 to 90 are moved by 32), since no other code
  point is lowercased to a letter of these words. Tags, like paths, are modelled as
  \<open>string\<close>, with \<open>lower\<close> for \<open>str.lower()\<close> on them.
\<close>

definition lower_char :: "char \<Rightarrow> char" where
  "lower_char c =
     (let n = (of_char c :: nat) in if 65 \<le> n \<and> n \<le> 90 then char_of (n + 32) else c)"

definition lower :: "string \<Rightarrow> string" where
  "lower s = map lower_char s"

text \<open>
  A column name is an arbitrary Python \<open>str\<close>: a sequence of Unicode code points.
  On column names \<open>str.lower()\<close> is the full Unicode lowercasing of the interpreter,
  whose tables are not part of the repository; it is a parameter, \<open>str_lower\<close>, of
  the functions that use it. \<open>ascii\<close> writes a name made of ASCII characters.
\<close>

type_synonym name = "nat list"

definition ascii :: "string \<Rightarrow> name" where
  "ascii s = map of_char s"

section \<open>The engine's datasets\<close>

text \<open>
  A DataFrame of the engine: an ordered schema of named, typed fields (names may repeat,
  as the engine allows after a rename) and a list of rows; a cell is \<open>None\<close> for null.
  Cell values are kept abstract (\<open>'v\<close>).
\<close>

datatype dtype = StringType | LongType | DoubleType | BooleanType

record 'v dataframe =
  schema :: "(name \<times> dtype) list"
  rows :: "'v option list list"

definition columns :: "'v dataframe \<Rightarrow> name list" where
  "columns df = map fst (schema df)"

definition count :: "'v dataframe \<Rightarrow> nat" where
  "count df = length (rows df)"

text \<open>Every row has one cell per field.\<close>

definition conforms :: "'v dataframe \<Rightarrow> bool" where
  "conforms df = list_all (\<lambda>r. length r = length (schema df)) (rows df)"


datatype exn = AttributeError | AnalysisException | EngineFailure string

datatype file_format = Json | Csv | Parquet

datatype save_mode = Append | Overwrite | ErrorIfExists | Ignore

text \<open>
  The engine behind a session. What the repository does not fix is a parameter:
  \<^item> whether the analyzer resolves names case-sensitively (\<open>spark.sql.caseSensitive\<close>,
    off by default) and, when it does not, the engine's own case folding: two names
    are the same for the analyzer when they are equal after \<open>fold_case\<close>. This folding
    is the engine's, not the interpreter's \<open>str.lower()\<close>, and nothing relates the two;
  \<^item> which types of two columns that meet in a union have a common type, and the cast of
    a value to the common type, which may give null;
  \<^item> whether evaluating a dataset for \<open>show(n)\<close> or for \<open>count()\<close> raises. A
    DataFrame is evaluated only when such an action runs, so an error of the plan (a
    cast the engine refuses, a source that cannot be read any more) is raised there;
  \<^item> the readers and writers, which depend on the file system \<open>'fs\<close>.
\<close>

record ('v, 'fs) engine =
  caseSensitive :: bool
  fold_case :: "name \<Rightarrow> name"
  widen :: "dtype \<Rightarrow> dtype \<Rightarrow> dtype option"
  cast :: "dtype \<Rightarrow> dtype \<Rightarrow> 'v \<Rightarrow> 'v option"
  show_error :: "'v dataframe \<Rightarrow> nat \<Rightarrow> exn option"
  count_error :: "'v dataframe \<Rightarrow> exn option"
  read_file :: "file_format \<Rightarrow> (string \<times> string) list \<Rightarrow> string \<Rightarrow> 'fs \<Rightarrow> exn + 'v dataframe"
  write_file :: "file_format \<Rightarrow> save_mode \<Rightarrow> (string \<times> string) list \<Rightarrow> string \<Rightarrow>
                 'v dataframe \<Rightarrow> 'fs \<Rightarrow> (exn + unit) \<times> 'fs"

text \<open>The analyzer's resolver: do two names denote the same column?\<close>

definition norm_name :: "('v, 'fs) engine \<Rightarrow> name \<Rightarrow> name" where
  "norm_name eng n = (if caseSensitive eng then n else fold_case eng n)"

definition resolves :: "('v, 'fs) engine \<Rightarrow> name \<Rightarrow> name \<Rightarrow> bool" where
  "resolves eng a b = (norm_name eng a = norm_name eng b)"

definition has_column :: "('v, 'fs) engine \<Rightarrow> 'v dataframe \<Rightarrow> name \<Rightarrow> bool" where
  "has_column eng df n = list_ex (\<lambda>m. resolves eng m n) (columns df)"

text \<open>
  \<open>df.withColumnRenamed(existing, new)\<close>: every field the resolver matches with
  \<open>existing\<close> takes the name \<open>new\<close>; nothing changes when no field matches.
\<close>

definition withColumnRenamed ::
  "('v, 'fs) engine \<Rightarrow> name \<Rightarrow> name \<Rightarrow> 'v dataframe \<Rightarrow> 'v dataframe" where
  "withColumnRenamed eng existing new df =
     df\<lparr>schema := map (\<lambda>(n, t). if resolves eng n existing then (new, t) else (n, t)) (schema df)\<rparr>"

text \<open>
  \<open>df.withColumn(name, lit(None).cast(ty))\<close>: a field the resolver matches with
  \<open>name\<close> is replaced in place by the null column, under the name \<open>name\<close>;
  when no field matches, the null column is appended.
\<close>

definition withColumn_null ::
  "('v, 'fs) engine \<Rightarrow> name \<Rightarrow> dtype \<Rightarrow> 'v dataframe \<Rightarrow> 'v dataframe" where
  "withColumn_null eng name ty df =
     (if list_ex (\<lambda>(n, t). resolves eng n name) (schema df)
      then \<lparr>schema = map (\<lambda>(n, t). if resolves eng n name then (name, ty) else (n, t)) (schema df),
            rows = map (\<lambda>r. map (\<lambda>((n, t), c). if resolves eng n name then None else c)
                                 (zip (schema df) r)) (rows df)\<rparr>
      else \<lparr>schema = schema df @ [(name, ty)],
            rows = map (\<lambda>r. r @ [None]) (rows df)\<rparr>)"

section \<open>Console output and engine calls\<close>

text \<open>
  Each \<open>print\<close> of the script is an event (its text is abstracted to a tag and the
  values it shows); each call that makes the engine read, unite or write is an event as
  well, recorded where the script makes the call.
\<close>

datatype event =
    Out_try_read string
  | Out_unsupported_read string
  | Out_read_ok string
  | Out_read_failed string exn
  | Out_schema "(name \<times> dtype) list"
  | Out_show nat
  | Out_count nat
  | Out_ncols nat
  | Out_process_start
  | Out_renamed name name
  | Out_rename_skipped name
  | Out_added name
  | Out_exists name
  | Out_process_done
  | Out_union_null
  | Out_union_start
  | Out_union_ok
  | Out_union_done
  | Out_union_failed exn
  | Out_save_null
  | Out_try_save string string
  | Out_unsupported_save string
  | Out_save_ok string
  | Out_save_failed string exn
  | Call_read file_format string
  | Call_union
  | Call_write file_format string

record 'fs world =
  disk :: 'fs
  trace :: "event list"

definition say :: "event list \<Rightarrow> 'fs world \<Rightarrow> 'fs world" where
  "say es w = w\<lparr>trace := trace w @ es\<rparr>"

text \<open>What \<open>printSchema()\<close> and a successful \<open>show(n, truncate=False)\<close> print.\<close>

definition printSchema :: "'v dataframe \<Rightarrow> event" where
  "printSchema df = Out_schema (schema df)"

definition show_rows :: "nat \<Rightarrow> 'v dataframe \<Rightarrow> event" where
  "show_rows n df = Out_show (min n (length (rows df)))"

text \<open>
  The diagnostics that close \<open>process_dataframe\<close> and \<open>union_dataframes\<close> evaluate
  the dataset: \<open>show(n)\<close> first, then \<open>count()\<close>. \<open>diagnosed\<close> is their outcome: the
  error the first failing one raises, or the dataset.
\<close>

definition diagnosed :: "('v, 'fs) engine \<Rightarrow> nat \<Rightarrow> 'v dataframe \<Rightarrow> exn + 'v dataframe" where
  "diagnosed eng n df =
     (case show_error eng df n of
        Some e \<Rightarrow> Inl e
      | None \<Rightarrow> (case count_error eng df of Some e \<Rightarrow> Inl e | None \<Rightarrow> Inr df))"

section \<open>process_dataframe\<close>

text \<open>The renaming loop over \<open>mapping.items()\<close>, in the dict's order.\<close>

fun rename_loop ::
  "('v, 'fs) engine \<Rightarrow> (name \<times> name) list \<Rightarrow> 'v dataframe \<Rightarrow> 'w world \<Rightarrow>
   'v dataframe \<times> 'w world" where
  "rename_loop eng [] processed_df w = (processed_df, w)"
| "rename_loop eng ((old_name, new_name) # mapping) processed_df w =
     (if old_name \<in> set (columns processed_df)
      then rename_loop eng mapping (withColumnRenamed eng old_name new_name processed_df)
             (say [Out_renamed old_name new_name] w)
      else rename_loop eng mapping processed_df (say [Out_rename_skipped old_name] w))"

text \<open>
  The loop over \<open>required_columns\<close>; \<open>current_columns\<close> is the list computed before
  the loop and is passed unchanged to every iteration. The test is the script's, with
  \<open>str.lower()\<close>; what \<open>withColumn\<close> then does is the engine's.
\<close>

fun add_loop ::
  "('v, 'fs) engine \<Rightarrow> (name \<Rightarrow> name) \<Rightarrow> name list \<Rightarrow> name list \<Rightarrow> 'v dataframe \<Rightarrow>
   'w world \<Rightarrow> 'v dataframe \<times> 'w world" where
  "add_loop eng str_lower current_columns [] processed_df w = (processed_df, w)"
| "add_loop eng str_lower current_columns (col # required_columns) processed_df w =
     (if str_lower col \<notin> set current_columns
      then add_loop eng str_lower current_columns required_columns
             (withColumn_null eng col StringType processed_df) (say [Out_added col] w)
      else add_loop eng str_lower current_columns required_columns processed_df
             (say [Out_exists col] w))"

text \<open>
  The function has no \<open>try\<close>. With \<open>df = None\<close> the first read of
  \<open>processed_df.columns\<close> (in the first loop, or in the list comprehension when the
  mapping is empty) raises \<open>AttributeError\<close>, after the opening message. With a
  dataset, the two loops build the result; then the closing diagnostics run, and an
  error that \<open>show(5)\<close> or \<open>count()\<close> raises leaves the function as it is.
\<close>

definition process_dataframe ::
  "('v, 'fs) engine \<Rightarrow> (name \<Rightarrow> name) \<Rightarrow> 'v dataframe option \<Rightarrow> (name \<times> name) list \<Rightarrow>
   name list \<Rightarrow> 'fs world \<Rightarrow> (exn + 'v dataframe) \<times> 'fs world" where
  "process_dataframe eng str_lower df mapping required_columns w =
     (case df of
        None \<Rightarrow> (Inl AttributeError, say [Out_process_start] w)
      | Some d \<Rightarrow>
          (case rename_loop eng mapping d (say [Out_process_start] w) of
             (renamed, w1) \<Rightarrow>
               (case add_loop eng str_lower (map str_lower (columns renamed)) required_columns
                       renamed w1 of
                  (processed_df, w2) \<Rightarrow>
                    (case show_error eng processed_df 5 of
                       Some e \<Rightarrow> (Inl e, say [printSchema processed_df] w2)
                     | None \<Rightarrow>
                         (case count_error eng processed_df of
                            Some e \<Rightarrow>
                              (Inl e, say [printSchema processed_df, show_rows 5 processed_df] w2)
                          | None \<Rightarrow>
                              (Inr processed_df,
                               say [printSchema processed_df, show_rows 5 processed_df,
                                    Out_count (count processed_df),
                                    Out_ncols (length (columns processed_df)),
                                    Out_process_done] w2))))))"

text \<open>
  The dataset the two loops build from a dataset, a mapping and a required-columns
  list: what \<open>process_dataframe\<close> returns when its closing diagnostics do not raise.
\<close>

definition harmonized ::
  "('v, 'fs) engine \<Rightarrow> (name \<Rightarrow> name) \<Rightarrow> 'v dataframe \<Rightarrow> (name \<times> name) list \<Rightarrow> name list \<Rightarrow>
   'v dataframe" where
  "harmonized eng str_lower d mapping required_columns =
     (case rename_loop eng mapping d \<lparr>disk = (), trace = []\<rparr> of
        (renamed, w1) \<Rightarrow>
          fst (add_loop eng str_lower (map str_lower (columns renamed)) required_columns
                 renamed w1))"

section \<open>union_dataframes\<close>

text \<open>
  \<open>left.unionByName(right, allowMissingColumns=True)\<close> of the engine. The analyzer
  first refuses a side whose column names repeat (as it compares names). The result has
  the left side's columns followed by the right side's columns that resolve to no left
  column; a row of the left side has null in the latter, a row of the right side gives
  each left column the cell of the right column it resolves to, or null when there is
  none. Two columns that meet must have the same type or a common wider type, to which
  the cells are cast; otherwise the analyzer refuses the union.
\<close>

definition type_of :: "('v, 'fs) engine \<Rightarrow> 'v dataframe \<Rightarrow> name \<Rightarrow> dtype option" where
  "type_of eng df n =
     map_of (zip (map (norm_name eng) (columns df)) (map snd (schema df))) (norm_name eng n)"

definition cell_of :: "('v, 'fs) engine \<Rightarrow> 'v dataframe \<Rightarrow> 'v option list \<Rightarrow> name \<Rightarrow> 'v option" where
  "cell_of eng df r n =
     (case map_of (zip (map (norm_name eng) (columns df)) r) (norm_name eng n) of
        None \<Rightarrow> None
      | Some c \<Rightarrow> c)"

definition common_type :: "('v, 'fs) engine \<Rightarrow> dtype \<Rightarrow> dtype \<Rightarrow> dtype option" where
  "common_type eng t u = (if t = u then Some t else widen eng t u)"

definition coerce :: "('v, 'fs) engine \<Rightarrow> dtype \<Rightarrow> dtype \<Rightarrow> 'v option \<Rightarrow> 'v option" where
  "coerce eng t u c =
     (if t = u then c else (case c of None \<Rightarrow> None | Some v \<Rightarrow> cast eng t u v))"

text \<open>The fields of the right side that resolve to no column of the left side.\<close>

definition right_only :: "('v, 'fs) engine \<Rightarrow> 'v dataframe \<Rightarrow> 'v dataframe \<Rightarrow> (name \<times> dtype) list" where
  "right_only eng left right = filter (\<lambda>(n, t). \<not> has_column eng left n) (schema right)"

text \<open>
  For each left field, its type on the right side (its own type when the right side
  lacks it, where the engine puts a null literal of that type) and the common type.
\<close>

definition aligned :: "('v, 'fs) engine \<Rightarrow> 'v dataframe \<Rightarrow> 'v dataframe \<Rightarrow>
    (name \<times> dtype \<times> dtype \<times> dtype option) list" where
  "aligned eng left right =
     map (\<lambda>(n, t). case type_of eng right n of
                      None \<Rightarrow> (n, t, t, Some t)
                    | Some u \<Rightarrow> (n, t, u, common_type eng t u)) (schema left)"

definition unionByName :: "('v, 'fs) engine \<Rightarrow> 'v dataframe \<Rightarrow> 'v dataframe \<Rightarrow> exn + 'v dataframe" where
  "unionByName eng left right =
     (if \<not> distinct (map (norm_name eng) (columns left)) \<or>
         \<not> distinct (map (norm_name eng) (columns right))
      then Inl AnalysisException
      else if list_ex (\<lambda>(n, t, u, k). k = None) (aligned eng left right)
      then Inl AnalysisException
      else Inr
        \<lparr>schema = map (\<lambda>(n, t, u, k). (n, case k of None \<Rightarrow> t | Some ty \<Rightarrow> ty)) (aligned eng left right)
                  @ right_only eng left right,
         rows =
           map (\<lambda>r. map (\<lambda>((n, t, u, k), c). coerce eng t (case k of None \<Rightarrow> t | Some ty \<Rightarrow> ty) c)
                         (zip (aligned eng left right) r)
                    @ replicate (length (right_only eng left right)) None) (rows left)
           @ map (\<lambda>r. map (\<lambda>(n, t, u, k). coerce eng u (case k of None \<Rightarrow> t | Some ty \<Rightarrow> ty)
                                               (cell_of eng right r n))
                           (aligned eng left right)
                      @ map snd (filter (\<lambda>((n, t), c). \<not> has_column eng left n)
                                        (zip (schema right) r))) (rows right)\<rparr>)"

text \<open>
  After the test for an absent input, everything is inside the \<open>try\<close>: the engine's
  union, and the diagnostics on its result. The union is only evaluated by
  \<open>show(10)\<close> and \<open>count()\<close>; an error raised there is caught like a refusal of the
  analyzer, and None is returned.
\<close>

definition union_dataframes ::
  "('v, 'fs) engine \<Rightarrow> 'v dataframe option \<Rightarrow> 'v dataframe option \<Rightarrow> 'fs world \<Rightarrow>
   (exn + 'v dataframe option) \<times> 'fs world" where
  "union_dataframes eng df1 df2 w =
     (case (df1, df2) of
        (Some d1, Some d2) \<Rightarrow>
          (case unionByName eng d1 d2 of
             Inr unified_df \<Rightarrow>
               (case show_error eng unified_df 10 of
                  Some e \<Rightarrow>
                    (Inr None,
                     say [Out_union_start, Call_union, Out_union_ok, printSchema unified_df,
                          Out_union_failed e] w)
                | None \<Rightarrow>
                    (case count_error eng unified_df of
                       Some e \<Rightarrow>
                         (Inr None,
                          say [Out_union_start, Call_union, Out_union_ok, printSchema unified_df,
                               show_rows 10 unified_df, Out_union_failed e] w)
                     | None \<Rightarrow>
                         (Inr (Some unified_df),
                          say [Out_union_start, Call_union, Out_union_ok, printSchema unified_df,
                               show_rows 10 unified_df, Out_count (count unified_df),
                               Out_union_done] w)))
           | Inl e \<Rightarrow> (Inr None, say [Out_union_start, Call_union, Out_union_failed e] w))
      | _ \<Rightarrow> (Inr None, say [Out_union_null] w))"

section \<open>load_dataframe and save_dataframe\<close>

text \<open>
  The options loop: \<open>if options:\<close> skips \<open>None\<close> and the empty dict, otherwise each
  pair is given to the reader or writer in the dict's order.

  In \<open>load_dataframe\<close> everything after the opening message is inside the \<open>try\<close>:
  a failure of the engine's reader (or of the diagnostics that follow the read, which
  the reader's result stands for) is caught and None is returned. In
  \<open>save_dataframe\<close> the test for the absent dataset comes first; the writer is opened
  in overwrite mode, and a failure of the engine's writer is caught and False is
  returned. A failed write may still have changed the disk.
\<close>

definition apply_options :: "(string \<times> string) list option \<Rightarrow> (string \<times> string) list" where
  "apply_options options =
     (case options of None \<Rightarrow> [] | Some kvs \<Rightarrow> foldl (\<lambda>reader kv. reader @ [kv]) [] kvs)"

definition load_dataframe ::
  "('v, 'fs) engine \<Rightarrow> string \<Rightarrow> string \<Rightarrow> (string \<times> string) list option \<Rightarrow> 'fs world \<Rightarrow>
   (exn + 'v dataframe option) \<times> 'fs world" where
  "load_dataframe eng path file_type options w =
     (let finish = (\<lambda>fmt.
            case read_file eng fmt (apply_options options) path (disk w) of
              Inr df \<Rightarrow>
                (Inr (Some df),
                 say [Out_try_read path, Call_read fmt path, Out_read_ok path, printSchema df,
                      show_rows 5 df, Out_count (count df)] w)
            | Inl e \<Rightarrow>
                (Inr None, say [Out_try_read path, Call_read fmt path, Out_read_failed path e] w))
      in if lower file_type = ''json'' then finish Json
         else if lower file_type = ''csv'' then finish Csv
         else (Inr None, say [Out_try_read path, Out_unsupported_read file_type] w))"

definition save_dataframe ::
  "('v, 'fs) engine \<Rightarrow> 'v dataframe option \<Rightarrow> string \<Rightarrow> string \<Rightarrow>
   (string \<times> string) list option \<Rightarrow> 'fs world \<Rightarrow> (exn + bool) \<times> 'fs world" where
  "save_dataframe eng df output_path file_format options w =
     (case df of
        None \<Rightarrow> (Inr False, say [Out_save_null] w)
      | Some d \<Rightarrow>
          (let finish = (\<lambda>fmt.
                 case write_file eng fmt Overwrite (apply_options options) output_path d (disk w) of
                   (Inr u, fs) \<Rightarrow>
                     (Inr True,
                      say [Out_try_save output_path file_format, Call_write fmt output_path,
                           Out_save_ok output_path] (w\<lparr>disk := fs\<rparr>))
                 | (Inl e, fs) \<Rightarrow>
                     (Inr False,
                      say [Out_try_save output_path file_format, Call_write fmt output_path,
                           Out_save_failed output_path e] (w\<lparr>disk := fs\<rparr>)))
           in if lower file_format = ''csv'' then finish Csv
              else if lower file_format = ''parquet'' then finish Parquet
              else if lower file_format = ''json'' then finish Json
              else (Inr False, say [Out_try_save output_path file_format,
                                    Out_unsupported_save file_format] w)))"

section \<open>Observing the required-columns loop\<close>

text \<open>
  The two messages of the loop over \<open>required_columns\<close> tell which branch an
  iteration took: \<open>Out_added\<close> for the branch that calls \<open>withColumn\<close>,
  \<open>Out_exists\<close> for the other one. \<open>required_events\<close> keeps these messages of a trace.
\<close>

fun about_required :: "event \<Rightarrow> bool" where
  "about_required (Out_added c) = True"
| "about_required (Out_exists c) = True"
| "about_required e = False"

definition required_events :: "event list \<Rightarrow> event list" where
  "required_events es = filter about_required es"


section \<open>A concrete engine and datasets for the examples\<close>

text \<open>
  The names of the examples are made of ASCII characters and of the dotless i (code
  point 305). On such names \<open>str.lower()\<close> moves the capital ASCII letters and
  leaves the rest, the dotless i included; the engine's folding of a code unit (to
  upper case, then to lower case) does the same on ASCII, and takes the dotless i to
  \<open>I\<close> and then to \<open>i\<close> (code point 105).
\<close>

definition sample_lower :: "name \<Rightarrow> name" where
  "sample_lower n = map (\<lambda>c. if 65 \<le> c \<and> c \<le> 90 then c + 32 else c) n"

definition sample_fold :: "name \<Rightarrow> name" where
  "sample_fold n =
     map (\<lambda>c. if 65 \<le> c \<and> c \<le> 90 then c + 32 else if c = 305 then 105 else c) n"

text \<open>
  An engine whose file system is a list of stored datasets, newest first, and whose
  actions never fail. Its widening table: equal types meet in themselves, a boolean
  column meets no other type, a string column absorbs a numeric one, and the two
  numeric types meet in the double.
\<close>

definition sample_widen :: "dtype \<Rightarrow> dtype \<Rightarrow> dtype option" where
  "sample_widen t u =
     (if t = u then Some t
      else if t = BooleanType \<or> u = BooleanType then None
      else if t = StringType \<or> u = StringType then Some StringType
      else Some DoubleType)"

type_synonym sample_disk = "(string \<times> file_format \<times> string dataframe) list"

definition sample_engine :: "bool \<Rightarrow> (string, sample_disk) engine" where
  "sample_engine cs =
     \<lparr>caseSensitive = cs,
      fold_case = sample_fold,
      widen = sample_widen,
      cast = (\<lambda>t u v. Some v),
      show_error = (\<lambda>d n. None),
      count_error = (\<lambda>d. None),
      read_file = (\<lambda>fmt opts path fs.
         case map_of fs path of
           None \<Rightarrow> Inl (EngineFailure path)
         | Some (f, d) \<Rightarrow> if f = fmt then Inr d else Inl (EngineFailure path)),
      write_file = (\<lambda>fmt mode opts path d fs. (Inr (), (path, fmt, d) # fs))\<rparr>"

text \<open>The same engine when evaluating a dataset for \<open>show\<close> fails.\<close>

definition failing_engine :: "(string, sample_disk) engine" where
  "failing_engine = (sample_engine False)\<lparr>show_error := (\<lambda>d n. Some (EngineFailure ''show''))\<rparr>"

definition table_A :: "string dataframe" where
  "table_A = \<lparr>schema = [(ascii ''x'', LongType), (ascii ''y'', StringType)],
              rows = [[Some ''1'', Some ''u''], [Some ''2'', None]]\<rparr>"

definition table_B :: "string dataframe" where
  "table_B = \<lparr>schema = [(ascii ''y'', StringType), (ascii ''z'', LongType)],
              rows = [[Some ''v'', Some ''3'']]\<rparr>"

text \<open>
  A dataset whose column \<open>z\<close> is boolean, one whose only column is \<open>X\<close>, and one
  whose only column is named by the dotless i.
\<close>

definition table_C :: "string dataframe" where
  "table_C = \<lparr>schema = [(ascii ''z'', BooleanType)], rows = [[Some ''true'']]\<rparr>"

definition table_X :: "string dataframe" where
  "table_X = \<lparr>schema = [(ascii ''X'', LongType)], rows = [[Some ''9'']]\<rparr>"


definition start :: "sample_disk world" where
  "start = \<lparr>disk = [(''a.json'', Json, table_A)], trace = []\<rparr>"

section \<open>Facts about the strings of the examples\<close>

lemma lower_JSON: "lower ''JSON'' = ''json''"
  by code_simp

lemma lower_Csv: "lower ''Csv'' = ''csv''"
  by code_simp

lemma lower_PARQUET: "lower ''PARQUET'' = ''parquet''"
  by code_simp

lemma lower_xml: "lower ''xml'' = ''xml''"
  by code_simp

section \<open>The stages as boundaries\<close>

lemma load_dataframe_returns:
  "\<exists>r. fst (load_dataframe eng path file_type options w) = Inr r"
  by (auto simp add: load_dataframe_def Let_def split: sum.split)

lemma union_dataframes_returns:
  "\<exists>r. fst (union_dataframes eng df1 df2 w) = Inr r"
  by (auto simp add: union_dataframes_def split: option.split sum.split)

lemma save_dataframe_returns:
  "\<exists>r. fst (save_dataframe eng df output_path file_format options w) = Inr r"
  by (auto simp add: save_dataframe_def Let_def split: option.split sum.split prod.split)

text \<open>
  C4. Every stage is meant to turn a failure into its sentinel and to let no exception
  out, also for an absent dataset. The loader, the unioner and the writer do: whatever
  the input, they return a value. The harmonizer does not: given the absent dataset it
  raises \<open>AttributeError\<close>, for every mapping and every required-columns list.
\<close>

theorem process_dataframe_absent_raises:
  "fst (process_dataframe eng str_lower None mapping required_columns w) = Inl AttributeError \<and>
   (\<exists>r. fst (load_dataframe eng path file_type options w) = Inr r) \<and>
   (\<exists>r. fst (union_dataframes eng df1 df2 w) = Inr r) \<and>
   (\<exists>r. fst (save_dataframe eng df output_path file_format options w) = Inr r)"
  by (simp add: process_dataframe_def load_dataframe_returns union_dataframes_returns
      save_dataframe_returns)

text \<open>
  C5. When at least one input is absent, the unioner returns absent, and the only thing
  it does is print its error: the engine's union is not called and the disk is as
  before. The writer given an absent dataset returns False, for every path, format tag
  and options, printing its error only: no write is called and the disk is as before.
\<close>

theorem absent_input_short_circuits:
  "(df1 = None \<or> df2 = None \<longrightarrow>
      fst (union_dataframes eng df1 df2 w) = Inr None \<and>
      disk (snd (union_dataframes eng df1 df2 w)) = disk w \<and>
      trace (snd (union_dataframes eng df1 df2 w)) = trace w @ [Out_union_null]) \<and>
   fst (save_dataframe eng None output_path file_format options w) = Inr False \<and>
   disk (snd (save_dataframe eng None output_path file_format options w)) = disk w \<and>
   trace (snd (save_dataframe eng None output_path file_format options w)) =
     trace w @ [Out_save_null]"
  by (auto simp add: union_dataframes_def save_dataframe_def say_def split: option.split)

theorem absent_input_short_circuits_witness:
  "((None :: string dataframe option) = None \<or> Some table_A = None) \<and>
   fst (union_dataframes (sample_engine False) None (Some table_A) start) = Inr None \<and>
   disk (snd (union_dataframes (sample_engine False) None (Some table_A) start)) = disk start \<and>
   trace (snd (union_dataframes (sample_engine False) None (Some table_A) start)) =
     [Out_union_null] \<and>
   fst (save_dataframe (sample_engine False) None ''out'' ''parquet'' None start) = Inr False"
  using absent_input_short_circuits [where ?df1.0 = None and ?df2.0 = "Some table_A"
      and eng = "sample_engine False" and w = start and output_path = "''out''"
      and file_format = "''parquet''" and options = None]
  by (simp add: start_def)

text \<open>
  C6. A format tag outside the supported set makes the loader return None and the
  writer return False. Both return (nothing is raised); neither calls the engine's
  reader or writer, and the disk is as before: the trace gains the opening message and
  the unsupported-format message only (for the writer given an absent dataset, its
  absent-dataset message only).
\<close>

theorem unsupported_format_sentinel:
  "(lower file_type \<notin> {''json'', ''csv''} \<longrightarrow>
      fst (load_dataframe eng path file_type options w) = Inr None \<and>
      disk (snd (load_dataframe eng path file_type options w)) = disk w \<and>
      trace (snd (load_dataframe eng path file_type options w)) =
        trace w @ [Out_try_read path, Out_unsupported_read file_type]) \<and>
   (lower file_format \<notin> {''csv'', ''parquet'', ''json''} \<longrightarrow>
      fst (save_dataframe eng df output_path file_format options w) = Inr False \<and>
      disk (snd (save_dataframe eng df output_path file_format options w)) = disk w \<and>
      trace (snd (save_dataframe eng df output_path file_format options w)) =
        trace w @ (case df of None \<Rightarrow> [Out_save_null]
                   | Some d \<Rightarrow> [Out_try_save output_path file_format,
                                Out_unsupported_save file_format]))"
  by (auto simp add: load_dataframe_def save_dataframe_def say_def Let_def split: option.split)

theorem unsupported_format_sentinel_witness:
  "lower ''xml'' \<notin> {''json'', ''csv''} \<and>
   lower ''xml'' \<notin> {''csv'', ''parquet'', ''json''} \<and>
   fst (load_dataframe (sample_engine False) ''a.json'' ''xml'' None start) = Inr None \<and>
   fst (save_dataframe (sample_engine False) (Some table_A) ''out'' ''xml'' None start) =
     Inr False \<and>
   disk (snd (save_dataframe (sample_engine False) (Some table_A) ''out'' ''xml'' None start)) =
     disk start \<and>
   trace (snd (save_dataframe (sample_engine False) (Some table_A) ''out'' ''xml'' None start)) =
     [Out_try_save ''out'' ''xml'', Out_unsupported_save ''xml'']"
  using unsupported_format_sentinel [where file_type = "''xml''" and file_format = "''xml''"
      and eng = "sample_engine False" and path = "''a.json''" and options = None
      and w = start and df = "Some table_A" and output_path = "''out''"]
  by (simp add: lower_xml start_def)

section \<open>Format tags\<close>

lemma load_dispatch:
  assumes "lower file_type = tag" "(tag, fmt) \<in> {(''json'', Json), (''csv'', Csv)}"
  shows "fst (load_dataframe eng path file_type options w) =
           Inr (case read_file eng fmt (apply_options options) path (disk w) of
                  Inl e \<Rightarrow> None | Inr d \<Rightarrow> Some d) \<and>
         (\<exists>rest. trace (snd (load_dataframe eng path file_type options w)) =
                   trace w @ [Out_try_read path, Call_read fmt path] @ rest \<and>
                 Out_unsupported_read file_type \<notin> set rest)"
  using assms
  by (auto simp add: load_dataframe_def say_def Let_def printSchema_def show_rows_def
      split: sum.split)

lemma save_dispatch:
  assumes "lower file_format = tag"
    "(tag, fmt) \<in> {(''csv'', Csv), (''parquet'', Parquet), (''json'', Json)}"
  shows "fst (save_dataframe eng (Some d) output_path file_format options w) =
           Inr (case fst (write_file eng fmt Overwrite (apply_options options) output_path d
                            (disk w)) of
                  Inl e \<Rightarrow> False | Inr u \<Rightarrow> True) \<and>
         disk (snd (save_dataframe eng (Some d) output_path file_format options w)) =
           snd (write_file eng fmt Overwrite (apply_options options) output_path d (disk w)) \<and>
         (\<exists>rest. trace (snd (save_dataframe eng (Some d) output_path file_format options w)) =
                   trace w @ [Out_try_save output_path file_format, Call_write fmt output_path]
                     @ rest \<and>
                 Out_unsupported_save file_format \<notin> set rest)"
  using assms
  by (auto simp add: save_dataframe_def say_def Let_def split: sum.split prod.split)

text \<open>
  C9. Format tags are matched on their lowercase form. A tag whose lowercase form is
  \<open>json\<close> or \<open>csv\<close> makes the loader call the engine's reader of that format and
  return what it read (None when the read fails); a tag whose lowercase form is
  \<open>csv\<close>, \<open>parquet\<close> or \<open>json\<close> makes the writer, given a dataset, call the engine's
  writer of that format in overwrite mode, return whether it succeeded and leave the
  disk as the writer left it. In neither case is the tag reported as unsupported.
\<close>

theorem format_tag_case_insensitive:
  "((tag, fmt) \<in> {(''json'', Json), (''csv'', Csv)} \<and> lower file_type = tag \<longrightarrow>
     fst (load_dataframe eng path file_type options w) =
       Inr (case read_file eng fmt (apply_options options) path (disk w) of
              Inl e \<Rightarrow> None | Inr d \<Rightarrow> Some d) \<and>
     (\<exists>rest. trace (snd (load_dataframe eng path file_type options w)) =
               trace w @ [Out_try_read path, Call_read fmt path] @ rest \<and>
             Out_unsupported_read file_type \<notin> set rest)) \<and>
   ((tag', fmt') \<in> {(''csv'', Csv), (''parquet'', Parquet), (''json'', Json)} \<and>
    lower file_format = tag' \<longrightarrow>
     fst (save_dataframe eng (Some d) output_path file_format options' w) =
       Inr (case fst (write_file eng fmt' Overwrite (apply_options options') output_path d
                        (disk w)) of
              Inl e \<Rightarrow> False | Inr u \<Rightarrow> True) \<and>
     disk (snd (save_dataframe eng (Some d) output_path file_format options' w)) =
       snd (write_file eng fmt' Overwrite (apply_options options') output_path d (disk w)) \<and>
     (\<exists>rest. trace (snd (save_dataframe eng (Some d) output_path file_format options' w)) =
               trace w @ [Out_try_save output_path file_format, Call_write fmt' output_path]
                 @ rest \<and>
             Out_unsupported_save file_format \<notin> set rest))"
  using load_dispatch [of file_type tag fmt eng path options w]
    save_dispatch [of file_format tag' fmt' eng d output_path options' w]
  by blast

theorem format_tag_case_insensitive_witness:
  "(''json'', Json) \<in> {(''json'', Json), (''csv'', Csv)} \<and> lower ''JSON'' = ''json'' \<and>
   (''csv'', Csv) \<in> {(''csv'', Csv), (''parquet'', Parquet), (''json'', Json)} \<and>
   lower ''Csv'' = ''csv'' \<and>
   fst (load_dataframe (sample_engine False) ''a.json'' ''JSON'' None start) =
     Inr (Some table_A) \<and>
   fst (save_dataframe (sample_engine False) (Some table_B) ''out'' ''Csv'' None start) =
     Inr True \<and>
   disk (snd (save_dataframe (sample_engine False) (Some table_B) ''out'' ''Csv'' None start)) =
     (''out'', Csv, table_B) # disk start"
  using format_tag_case_insensitive [where tag = "''json''" and fmt = Json
      and file_type = "''JSON''" and eng = "sample_engine False" and path = "''a.json''"
      and options = None and w = start and tag' = "''csv''" and fmt' = Csv
      and file_format = "''Csv''" and d = table_B and output_path = "''out''"
      and options' = None]
  by (simp add: lower_JSON lower_Csv sample_engine_def start_def apply_options_def)

section \<open>Harmonization: the two loops\<close>


lemma trace_say: "trace (say es w) = trace w @ es"
  by (simp add: say_def)

lemma disk_say: "disk (say es w) = disk w"
  by (simp add: say_def)





lemma rename_loop_world:
  "disk (snd (rename_loop eng m df w)) = disk w \<and>
   (\<exists>es. trace (snd (rename_loop eng m df w)) = trace w @ es \<and>
         (\<forall>e \<in> set es. (\<exists>a b. e = Out_renamed a b) \<or> (\<exists>a. e = Out_rename_skipped a)))"
proof (induction m arbitrary: df w)
  case Nil
  then show ?case by simp
next
  case (Cons p m)
  obtain a b where p: "p = (a, b)" by (cases p)
  show ?case
  proof (cases "a \<in> set (columns df)")
    case True
    from Cons [of "withColumnRenamed eng a b df" "say [Out_renamed a b] w"]
    show ?thesis using True p by (auto simp add: trace_say disk_say)
  next
    case False
    from Cons [of df "say [Out_rename_skipped a] w"]
    show ?thesis using False p by (auto simp add: trace_say disk_say)
  qed
qed

lemma rename_loop_fst: "fst (rename_loop eng m df w) = fst (rename_loop eng m df w')"
  by (induction m arbitrary: df w w') auto

lemma add_loop_fst:
  "fst (add_loop eng str_lower S req df w) = fst (add_loop eng str_lower S req df w')"
  by (induction req arbitrary: df w w') auto

lemma harmonized_eq:
  "harmonized eng str_lower d mapping required_columns =
   fst (add_loop eng str_lower (map str_lower (columns (fst (rename_loop eng mapping d w))))
          required_columns (fst (rename_loop eng mapping d w)) w')"
proof -
  have r: "fst (rename_loop eng mapping d \<lparr>disk = (), trace = []\<rparr>) = fst (rename_loop eng mapping d w)"
    by (rule rename_loop_fst)
  show ?thesis
    unfolding harmonized_def
    by (simp add: case_prod_unfold r) (rule add_loop_fst)
qed

lemma harmonized_no_required:
  "harmonized eng str_lower d mapping [] = fst (rename_loop eng mapping d w)"
  using harmonized_eq [of eng str_lower d mapping "[]" w w] by simp

lemma process_dataframe_result:
  "fst (process_dataframe eng str_lower (Some d) mapping required_columns w) =
   diagnosed eng 5 (harmonized eng str_lower d mapping required_columns)"
  unfolding harmonized_eq [of eng str_lower d mapping required_columns
      "say [Out_process_start] w" "snd (rename_loop eng mapping d (say [Out_process_start] w))"]
  by (simp add: process_dataframe_def diagnosed_def case_prod_unfold split: option.split)

lemma add_loop_append:
  "add_loop eng str_lower S (req @ req') df w =
     add_loop eng str_lower S req' (fst (add_loop eng str_lower S req df w))
       (snd (add_loop eng str_lower S req df w))"
  by (induction req arbitrary: df w) auto

lemma add_loop_world:
  "disk (snd (add_loop eng str_lower S req df w)) = disk w \<and>
   trace (snd (add_loop eng str_lower S req df w)) =
     trace w @ map (\<lambda>c. if str_lower c \<in> set S then Out_exists c else Out_added c) req"
  by (induction req arbitrary: df w) (auto simp add: trace_say disk_say)

lemma add_loop_foldl:
  "fst (add_loop eng str_lower S req df w) =
   foldl (\<lambda>d c. withColumn_null eng c StringType d) df (filter (\<lambda>c. str_lower c \<notin> set S) req)"
  by (induction req arbitrary: df w) auto

lemma required_events_append: "required_events (xs @ ys) = required_events xs @ required_events ys"
  by (simp add: required_events_def)

lemma required_events_rename:
  "\<forall>e \<in> set es. (\<exists>a b. e = Out_renamed a b) \<or> (\<exists>a. e = Out_rename_skipped a) \<Longrightarrow>
   required_events es = []"
  by (auto simp add: required_events_def filter_empty_conv)

lemma required_events_branches:
  "required_events (map (\<lambda>c. if str_lower c \<in> S then Out_exists c else Out_added c) req) =
   map (\<lambda>c. if str_lower c \<in> S then Out_exists c else Out_added c) req"
  by (induction req) (auto simp add: required_events_def)

lemma process_dataframe_required_events:
  "required_events (trace (snd (process_dataframe eng str_lower (Some df) mapping required_columns w))) =
   required_events (trace w) @
   map (\<lambda>c. if str_lower c \<in> str_lower ` set (columns (harmonized eng str_lower df mapping []))
             then Out_exists c else Out_added c) required_columns"
proof -
  let ?w0 = "say [Out_process_start] w"
  obtain es where es: "trace (snd (rename_loop eng mapping df ?w0)) = trace ?w0 @ es"
    "\<forall>e \<in> set es. (\<exists>a b. e = Out_renamed a b) \<or> (\<exists>a. e = Out_rename_skipped a)"
    using rename_loop_world [of eng mapping df ?w0] by blast
  let ?R = "fst (rename_loop eng mapping df ?w0)"
  have R: "harmonized eng str_lower df mapping [] = ?R"
    by (rule harmonized_no_required)
  let ?branches = "map (\<lambda>c. if str_lower c \<in> str_lower ` set (columns ?R)
                              then Out_exists c else Out_added c) required_columns"
  have "\<exists>diag. trace (snd (process_dataframe eng str_lower (Some df) mapping required_columns w)) =
          trace w @ [Out_process_start] @ es @ ?branches @ diag \<and> required_events diag = []"
    by (simp add: process_dataframe_def case_prod_unfold trace_say add_loop_world es(1)
        required_events_def printSchema_def show_rows_def split: option.split)
  then obtain diag where
    t: "trace (snd (process_dataframe eng str_lower (Some df) mapping required_columns w)) =
          trace w @ [Out_process_start] @ es @ ?branches @ diag"
    and d: "required_events diag = []"
    by blast
  have s: "required_events [Out_process_start] = []"
    by (simp add: required_events_def)
  show ?thesis
    unfolding t R required_events_append s d required_events_rename [OF es(2)]
      required_events_branches
    by simp
qed

text \<open>
  C10. The lowercase list of the column names is computed once, from the dataset as it
  is after the renames (\<open>harmonized\<close> with no required column), and is not updated by
  the loop. The branch taken for each required name depends on that dataset alone, and
  the dataset built is that dataset after one \<open>withColumn\<close> for each required name
  whose lowercase form is not in the list, in order; \<open>process_dataframe\<close> returns it
  unless a closing diagnostic raises. So for two entries with the same lowercase form,
  absent from the dataset, the appending branch runs and calls \<open>withColumn\<close> for both.
\<close>

theorem current_columns_computed_once:
  "required_events (trace (snd (process_dataframe eng str_lower (Some df) mapping required_columns w))) =
     required_events (trace w) @
     map (\<lambda>c. if str_lower c \<in> str_lower ` set (columns (harmonized eng str_lower df mapping []))
               then Out_exists c else Out_added c) required_columns \<and>
   fst (process_dataframe eng str_lower (Some df) mapping required_columns w) =
     diagnosed eng 5 (harmonized eng str_lower df mapping required_columns) \<and>
   harmonized eng str_lower df mapping required_columns =
     foldl (\<lambda>d c. withColumn_null eng c StringType d) (harmonized eng str_lower df mapping [])
       (filter (\<lambda>c. str_lower c \<notin> str_lower ` set (columns (harmonized eng str_lower df mapping [])))
          required_columns) \<and>
   (str_lower c1 = str_lower c2 \<and>
    str_lower c1 \<notin> str_lower ` set (columns (harmonized eng str_lower df mapping [])) \<longrightarrow>
      required_events (trace (snd (process_dataframe eng str_lower (Some df) mapping [c1, c2] w))) =
        required_events (trace w) @ [Out_added c1, Out_added c2] \<and>
      harmonized eng str_lower df mapping [c1, c2] =
        withColumn_null eng c2 StringType
          (withColumn_null eng c1 StringType (harmonized eng str_lower df mapping [])))"
proof -
  have f: "\<And>req. harmonized eng str_lower df mapping req =
     foldl (\<lambda>d c. withColumn_null eng c StringType d) (harmonized eng str_lower df mapping [])
       (filter (\<lambda>c. str_lower c \<notin> str_lower ` set (columns (harmonized eng str_lower df mapping [])))
          req)"
    by (simp add: harmonized_def case_prod_unfold add_loop_foldl)
  show ?thesis
    using f [of required_columns] f [of "[c1, c2]"]
    by (simp add: process_dataframe_required_events process_dataframe_result)
qed

lemma lower_Foo: "sample_lower (ascii ''Foo'') = sample_lower (ascii ''foo'')"
  by code_simp

lemma lower_Foo_absent:
  "sample_lower (ascii ''Foo'') \<notin>
   sample_lower ` set (columns (harmonized (sample_engine False) sample_lower table_A [] []))"
  by code_simp

lemma Foo_then_foo:
  "withColumn_null (sample_engine False) (ascii ''foo'') StringType
     (withColumn_null (sample_engine False) (ascii ''Foo'') StringType
        (harmonized (sample_engine False) sample_lower table_A [] [])) =
   \<lparr>schema = [(ascii ''x'', LongType), (ascii ''y'', StringType), (ascii ''foo'', StringType)],
    rows = [[Some ''1'', Some ''u'', None], [Some ''2'', None, None]]\<rparr>"
  by code_simp

theorem current_columns_computed_once_witness:
  "sample_lower (ascii ''Foo'') = sample_lower (ascii ''foo'') \<and>
   sample_lower (ascii ''Foo'') \<notin>
     sample_lower ` set (columns (harmonized (sample_engine False) sample_lower table_A [] [])) \<and>
   required_events (trace (snd (process_dataframe (sample_engine False) sample_lower
                                  (Some table_A) [] [ascii ''Foo'', ascii ''foo''] start))) =
     [Out_added (ascii ''Foo''), Out_added (ascii ''foo'')] \<and>
   harmonized (sample_engine False) sample_lower table_A [] [ascii ''Foo'', ascii ''foo''] =
     \<lparr>schema = [(ascii ''x'', LongType), (ascii ''y'', StringType), (ascii ''foo'', StringType)],
      rows = [[Some ''1'', Some ''u'', None], [Some ''2'', None, None]]\<rparr>"
  using current_columns_computed_once [where eng = "sample_engine False"
      and str_lower = sample_lower and df = table_A and mapping = "[]"
      and required_columns = "[]" and w = start
      and ?c1.0 = "ascii ''Foo''" and ?c2.0 = "ascii ''foo''"]
    lower_Foo lower_Foo_absent Foo_then_foo
  by (simp add: start_def required_events_def)

section \<open>Harmonization: the required columns\<close>


lemma list_ex_schema:
  "list_ex (\<lambda>(n, t). P n) (schema df) = (\<exists>n \<in> set (columns df). P n)"
  by (force simp add: list_ex_iff columns_def)

lemma has_column_schema:
  "has_column eng df c = list_ex (\<lambda>(n, t). resolves eng n c) (schema df)"
  by (simp add: has_column_def list_ex_schema) (simp add: list_ex_iff)











lemma diagnosed_sample: "diagnosed (sample_engine cs) n d = Inr d"
  by (simp add: diagnosed_def sample_engine_def)


text \<open>
  C8, as stated, fails on the code. The appending branch is chosen by the list computed
  before the loop, and what \<open>withColumn\<close> does is decided by the engine. With the
  required names \<open>Foo\<close> and \<open>foo\<close>, both missing from the dataset, under the
  engine's case-insensitive resolution: the first iteration appends a column \<open>Foo\<close>;
  the second takes the appending branch too, and \<open>withColumn\<close> replaces the column
  \<open>Foo\<close> by a column \<open>foo\<close>. That iteration adds no column, and the name \<open>Foo\<close>,
  as given in the list, is the name of no column of the result.
\<close>

theorem append_missing_column_counterexample:
  "harmonized (sample_engine False) sample_lower table_A [] [ascii ''Foo''] =
     \<lparr>schema = [(ascii ''x'', LongType), (ascii ''y'', StringType), (ascii ''Foo'', StringType)],
      rows = [[Some ''1'', Some ''u'', None], [Some ''2'', None, None]]\<rparr> \<and>
   fst (process_dataframe (sample_engine False) sample_lower (Some table_A) []
          [ascii ''Foo'', ascii ''foo''] start) =
     Inr \<lparr>schema = [(ascii ''x'', LongType), (ascii ''y'', StringType),
                    (ascii ''foo'', StringType)],
          rows = [[Some ''1'', Some ''u'', None], [Some ''2'', None, None]]\<rparr> \<and>
   required_events (trace (snd (process_dataframe (sample_engine False) sample_lower
                                  (Some table_A) [] [ascii ''Foo'', ascii ''foo''] start))) =
     [Out_added (ascii ''Foo''), Out_added (ascii ''foo'')] \<and>
   ascii ''Foo'' \<notin> set [ascii ''x'', ascii ''y'', ascii ''foo'']"
  by code_simp

text \<open>
  C8, amended. Let \<open>col\<close> be a required name, after the names \<open>pre\<close> and before the
  names \<open>post\<close> of the list, for which the loop takes its appending branch (the
  lowercase form of \<open>col\<close> is not in the list computed after the renames) and which
  the engine resolves to no column of the dataset built so far (from the dataset, the
  mapping and \<open>pre\<close>). Then the iteration for \<open>col\<close> yields that dataset with
  exactly one more column, at the end: its name is \<open>col\<close> as given, its type is the
  string type, its cell is null in every row; the rows are those of the dataset built
  so far, each extended by that cell, so the row count and every existing cell are
  unchanged. The message of the appending branch is printed, the remaining names are
  processed on the extended dataset, and with \<open>col\<close> last the extended dataset is
  what \<open>process_dataframe\<close> returns unless a closing diagnostic raises.
\<close>

theorem append_missing_column:
  assumes branch: "str_lower col \<notin>
                   str_lower ` set (columns (harmonized eng str_lower df mapping []))"
    and missing: "\<not> has_column eng (harmonized eng str_lower df mapping pre) col"
  shows "schema (harmonized eng str_lower df mapping (pre @ [col])) =
           schema (harmonized eng str_lower df mapping pre) @ [(col, StringType)] \<and>
         rows (harmonized eng str_lower df mapping (pre @ [col])) =
           map (\<lambda>r. r @ [None]) (rows (harmonized eng str_lower df mapping pre)) \<and>
         count (harmonized eng str_lower df mapping (pre @ [col])) =
           count (harmonized eng str_lower df mapping pre) \<and>
         fst (process_dataframe eng str_lower (Some df) mapping (pre @ [col]) w) =
           diagnosed eng 5 (harmonized eng str_lower df mapping (pre @ [col])) \<and>
         Out_added col \<in>
           set (trace (snd (process_dataframe eng str_lower (Some df) mapping
                              (pre @ col # post) w))) \<and>
         harmonized eng str_lower df mapping (pre @ col # post) =
           foldl (\<lambda>d c. withColumn_null eng c StringType d)
             (harmonized eng str_lower df mapping (pre @ [col]))
             (filter (\<lambda>c. str_lower c \<notin>
                           str_lower ` set (columns (harmonized eng str_lower df mapping [])))
                post)"
proof -
  let ?w0 = "\<lparr>disk = (), trace = []\<rparr>"
  let ?rw = "rename_loop eng mapping df ?w0"
  let ?R = "fst ?rw"
  let ?S = "map str_lower (columns ?R)"
  let ?D = "harmonized eng str_lower df mapping pre"
  let ?D' = "harmonized eng str_lower df mapping (pre @ [col])"
  have R: "harmonized eng str_lower df mapping [] = ?R"
    by (rule harmonized_no_required)
  have H: "\<And>req. harmonized eng str_lower df mapping req =
             fst (add_loop eng str_lower ?S req ?R (snd ?rw))"
    by (rule harmonized_eq)
  have notS: "str_lower col \<notin> set ?S"
    using branch by (simp add: R)
  have nores: "\<not> list_ex (\<lambda>(n, t). resolves eng n col) (schema ?D)"
    using missing by (simp add: has_column_schema)
  have "?D' = withColumn_null eng col StringType ?D"
    using notS by (simp add: H add_loop_append)
  then have new: "?D' = \<lparr>schema = schema ?D @ [(col, StringType)],
                         rows = map (\<lambda>r. r @ [None]) (rows ?D)\<rparr>"
    using nores by (simp add: withColumn_null_def)
  have ev: "Out_added col \<in>
           set (required_events (trace (snd (process_dataframe eng str_lower (Some df) mapping
                              (pre @ col # post) w))))"
    using branch by (simp add: process_dataframe_required_events)
  then have ev': "Out_added col \<in>
           set (trace (snd (process_dataframe eng str_lower (Some df) mapping
                              (pre @ col # post) w)))"
    by (simp add: required_events_def)
  have "harmonized eng str_lower df mapping ((pre @ [col]) @ post) =
        fst (add_loop eng str_lower ?S post ?D'
               (snd (add_loop eng str_lower ?S (pre @ [col]) ?R (snd ?rw))))"
    by (simp only: H add_loop_append)
  then have rest: "harmonized eng str_lower df mapping (pre @ col # post) =
           foldl (\<lambda>d c. withColumn_null eng c StringType d) ?D'
             (filter (\<lambda>c. str_lower c \<notin>
                           str_lower ` set (columns (harmonized eng str_lower df mapping [])))
                post)"
    by (simp add: add_loop_foldl R)
  have s: "schema ?D' = schema ?D @ [(col, StringType)]"
    and r: "rows ?D' = map (\<lambda>r. r @ [None]) (rows ?D)"
    using new by simp_all
  have c: "count ?D' = count ?D"
    using r by (simp add: count_def)
  show ?thesis
    by (intro conjI) (fact s r c process_dataframe_result ev' rest)+
qed

lemma lower_City_absent:
  "sample_lower (ascii ''City'') \<notin>
   sample_lower ` set (columns (harmonized (sample_engine False) sample_lower table_A [] []))"
  by code_simp

lemma City_unresolved:
  "\<not> has_column (sample_engine False)
       (harmonized (sample_engine False) sample_lower table_A [] [ascii ''id'']) (ascii ''City'')"
  by code_simp

lemma harmonized_A_id:
  "harmonized (sample_engine False) sample_lower table_A [] [ascii ''id''] =
   \<lparr>schema = [(ascii ''x'', LongType), (ascii ''y'', StringType), (ascii ''id'', StringType)],
    rows = [[Some ''1'', Some ''u'', None], [Some ''2'', None, None]]\<rparr>"
  by code_simp

theorem append_missing_column_witness:
  "schema (harmonized (sample_engine False) sample_lower table_A []
             [ascii ''id'', ascii ''City'']) =
     [(ascii ''x'', LongType), (ascii ''y'', StringType), (ascii ''id'', StringType),
      (ascii ''City'', StringType)] \<and>
   rows (harmonized (sample_engine False) sample_lower table_A []
           [ascii ''id'', ascii ''City'']) =
     [[Some ''1'', Some ''u'', None, None], [Some ''2'', None, None, None]] \<and>
   fst (process_dataframe (sample_engine False) sample_lower (Some table_A) []
          [ascii ''id'', ascii ''City''] start) =
     Inr (harmonized (sample_engine False) sample_lower table_A []
            [ascii ''id'', ascii ''City''])"
  using append_missing_column [OF lower_City_absent City_unresolved,
      where w = start and post = "[]"]
    harmonized_A_id
  by (simp add: diagnosed_sample)

section \<open>Harmonization keeps the columns it was given\<close>

lemma conforms_iff: "conforms df = (\<forall>r \<in> set (rows df). length r = length (schema df))"
  by (simp add: conforms_def list_all_iff)












lemma conforms_A: "conforms table_A"
  by code_simp



section \<open>Harmonization: what a rename achieves\<close>

















section \<open>The union by name\<close>

lemma resolves_norm: "resolves eng a b = (norm_name eng a = norm_name eng b)"
  by (simp add: resolves_def)

lemma has_column_iff:
  "has_column eng df n = (norm_name eng n \<in> norm_name eng ` set (columns df))"
  by (simp add: has_column_def list_ex_iff resolves_norm image_iff) metis

lemma has_column_own: "n \<in> set (columns df) \<Longrightarrow> has_column eng df n"
  by (auto simp add: has_column_iff)

lemma aligned_names: "map fst (aligned eng A B) = columns A"
  by (simp add: aligned_def columns_def comp_def case_prod_unfold split: option.split cong: map_cong)

lemma length_aligned: "length (aligned eng A B) = length (schema A)"
  by (simp add: aligned_def)

lemma right_only_names:
  "map fst (right_only eng A B) = filter (\<lambda>n. \<not> has_column eng A n) (columns B)"
  by (simp add: right_only_def columns_def filter_map comp_def case_prod_unfold)

lemma aligned_compatible:
  assumes "\<forall>(n, t) \<in> set (schema A). \<forall>u. type_of eng B n = Some u \<longrightarrow> common_type eng t u \<noteq> None"
  shows "\<not> list_ex (\<lambda>(n, t, u, k). k = None) (aligned eng A B)"
  using assms by (auto simp add: list_ex_iff aligned_def split: option.splits)

lemma cell_of_missing:
  "\<not> has_column eng B n \<Longrightarrow> cell_of eng B r n = None"
proof -
  assume "\<not> has_column eng B n"
  then have "norm_name eng n \<notin> set (map (norm_name eng) (columns B))"
    by (simp add: has_column_iff)
  then have "map_of (zip (map (norm_name eng) (columns B)) r) (norm_name eng n) = None"
    by (metis map_of_eq_None_iff set_zip_leftD map_of_SomeD not_Some_eq)
  then show ?thesis by (simp add: cell_of_def)
qed

lemma coerce_None: "coerce eng t u None = None"
  by (simp add: coerce_def)

lemma unionByName_ok:
  assumes "distinct (map (norm_name eng) (columns A))" "distinct (map (norm_name eng) (columns B))"
    "\<forall>(n, t) \<in> set (schema A). \<forall>u. type_of eng B n = Some u \<longrightarrow> common_type eng t u \<noteq> None"
  shows "unionByName eng A B = Inr
        \<lparr>schema = map (\<lambda>(n, t, u, k). (n, case k of None \<Rightarrow> t | Some ty \<Rightarrow> ty)) (aligned eng A B)
                  @ right_only eng A B,
         rows =
           map (\<lambda>r. map (\<lambda>((n, t, u, k), c). coerce eng t (case k of None \<Rightarrow> t | Some ty \<Rightarrow> ty) c)
                         (zip (aligned eng A B) r)
                    @ replicate (length (right_only eng A B)) None) (rows A)
           @ map (\<lambda>r. map (\<lambda>(n, t, u, k). coerce eng u (case k of None \<Rightarrow> t | Some ty \<Rightarrow> ty)
                                               (cell_of eng B r n))
                           (aligned eng A B)
                      @ map snd (filter (\<lambda>((n, t), c). \<not> has_column eng A n)
                                        (zip (schema B) r))) (rows B)\<rparr>"
  using assms(1,2) aligned_compatible [OF assms(3)] by (simp add: unionByName_def)

lemma union_columns:
  "map fst (map (\<lambda>(n, t, u, k). (n, case k of None \<Rightarrow> t | Some ty \<Rightarrow> ty)) (aligned eng A B)
            @ right_only eng A B) =
   columns A @ filter (\<lambda>n. \<not> has_column eng A n) (columns B)"
proof -
  have "map fst (map (\<lambda>(n, t, u, k). (n, case k of None \<Rightarrow> t | Some ty \<Rightarrow> ty)) (aligned eng A B)) =
        map fst (aligned eng A B)"
    by (simp add: comp_def case_prod_unfold)
  then show ?thesis
    by (simp add: aligned_names right_only_names)
qed

lemma left_row_null:
  assumes r: "length r = length (schema A)"
    and j: "j < length (columns A @ filter (\<lambda>n. \<not> has_column eng A n) (columns B))"
    and miss: "\<not> has_column eng A ((columns A @ filter (\<lambda>n. \<not> has_column eng A n) (columns B)) ! j)"
  shows "(map (\<lambda>((n, t, u, k), c). coerce eng t (case k of None \<Rightarrow> t | Some ty \<Rightarrow> ty) c)
              (zip (aligned eng A B) r)
          @ replicate (length (right_only eng A B)) None) ! j = None"
proof -
  have ge: "length (columns A) \<le> j"
  proof (rule ccontr)
    assume "\<not> length (columns A) \<le> j"
    then have lt: "j < length (columns A)" by simp
    then have "(columns A @ filter (\<lambda>n. \<not> has_column eng A n) (columns B)) ! j = columns A ! j"
      by (simp add: nth_append)
    moreover have "columns A ! j \<in> set (columns A)" using lt by simp
    ultimately show False using miss has_column_own by metis
  qed
  have len: "length (map (\<lambda>((n, t, u, k), c). coerce eng t (case k of None \<Rightarrow> t | Some ty \<Rightarrow> ty) c)
              (zip (aligned eng A B) r)) = length (columns A)"
    using r by (simp add: length_aligned columns_def)
  have k: "j - length (columns A) < length (right_only eng A B)"
    using j ge right_only_names [of eng A B] by (metis length_append length_map less_diff_conv2 add.commute)
  show ?thesis
    using ge k len by (simp add: nth_append)
qed

lemma right_row_null:
  assumes j: "j < length (columns A @ filter (\<lambda>n. \<not> has_column eng A n) (columns B))"
    and miss: "\<not> has_column eng B ((columns A @ filter (\<lambda>n. \<not> has_column eng A n) (columns B)) ! j)"
  shows "(map (\<lambda>(n, t, u, k). coerce eng u (case k of None \<Rightarrow> t | Some ty \<Rightarrow> ty)
                                  (cell_of eng B r n)) (aligned eng A B)
          @ extras) ! j = None"
proof -
  let ?f = "filter (\<lambda>n. \<not> has_column eng A n) (columns B)"
  have lt: "j < length (columns A)"
  proof (rule ccontr)
    assume "\<not> j < length (columns A)"
    then have ge: "length (columns A) \<le> j" by simp
    then have "(columns A @ ?f) ! j = ?f ! (j - length (columns A))"
      by (simp add: nth_append)
    moreover have "j - length (columns A) < length ?f"
      using j ge by simp
    ultimately have "(columns A @ ?f) ! j \<in> set ?f"
      by (metis nth_mem)
    then have "(columns A @ ?f) ! j \<in> set (columns B)"
      by simp
    then show False using miss has_column_own by metis
  qed
  then have la: "j < length (aligned eng A B)"
    by (simp add: length_aligned columns_def)
  have "fst (aligned eng A B ! j) = columns A ! j"
    using la aligned_names [of eng A B] by (metis nth_map)
  moreover have "(columns A @ ?f) ! j = columns A ! j"
    using lt by (simp add: nth_append)
  ultimately have "\<not> has_column eng B (fst (aligned eng A B ! j))"
    using miss by simp
  then have "cell_of eng B r (fst (aligned eng A B ! j)) = None"
    by (rule cell_of_missing)
  then show ?thesis
    using la by (simp add: nth_append case_prod_unfold coerce_None)
qed

text \<open>
  C3, as stated, fails on the code: not every two datasets have a union.
  \<^item> A boolean column \<open>z\<close> and a long column \<open>z\<close> have no common type: the engine
    refuses the union, \<open>union_dataframes\<close> catches the error and returns None.
  \<^item> Harmonizing a dataset with columns \<open>x, y\<close> under the mapping \<open>x \<mapsto> y\<close> gives a
    dataset with two columns \<open>y\<close>; the engine refuses to unite it by name, and
    \<open>union_dataframes\<close> returns None.
  \<^item> When the engine resolves names without regard to case, a column \<open>X\<close> of the
    right side is the column \<open>x\<close> of the left side: the union has no column \<open>X\<close>.
  \<^item> When evaluating the union for \<open>show(10)\<close> fails, the error is caught in the same
    \<open>try\<close> and None is returned, although the analyzer accepted the union.
\<close>

theorem union_by_name_counterexample:
  "fst (union_dataframes (sample_engine False) (Some table_C) (Some table_B) start) = Inr None \<and>
   fst (process_dataframe (sample_engine False) sample_lower (Some table_A)
          [(ascii ''x'', ascii ''y'')] [] start) =
     Inr \<lparr>schema = [(ascii ''y'', LongType), (ascii ''y'', StringType)], rows = rows table_A\<rparr> \<and>
   fst (union_dataframes (sample_engine False)
          (Some \<lparr>schema = [(ascii ''y'', LongType), (ascii ''y'', StringType)],
                 rows = rows table_A\<rparr>)
          (Some table_B) start) = Inr None \<and>
   fst (union_dataframes (sample_engine False) (Some table_A) (Some table_X) start) =
     Inr (Some \<lparr>schema = [(ascii ''x'', LongType), (ascii ''y'', StringType)],
                rows = [[Some ''1'', Some ''u''], [Some ''2'', None], [Some ''9'', None]]\<rparr>) \<and>
   ascii ''X'' \<in> set (columns table_X) \<and> ascii ''X'' \<notin> set [ascii ''x'', ascii ''y''] \<and>
   fst (union_dataframes failing_engine (Some table_A) (Some table_B) start) = Inr None"
  by code_simp

text \<open>
  C3, amended. Let neither dataset repeat a column name (as the engine compares names),
  let the types of any two columns that meet be equal or have a common wider type, and
  let the rows of the first dataset conform to its schema. Then the engine forms the
  union, and the unioner returns it unless \<open>show(10)\<close> or \<open>count()\<close> on it raises,
  in which case it returns None. The columns of the union are those of the first
  dataset followed by those of the second that the engine resolves to no column of the
  first: as the engine compares names, the column set is the union of the two column
  sets, and exactly their union when names are case-sensitive. Its row count is the sum
  of the two row counts, the rows of the first dataset coming first; a row that comes
  from a dataset lacking a column has null in that column.
\<close>

theorem union_by_name:
  assumes cA: "conforms A"
    and dA: "distinct (map (norm_name eng) (columns A))"
    and dB: "distinct (map (norm_name eng) (columns B))"
    and ty: "\<forall>(n, t) \<in> set (schema A). \<forall>u. type_of eng B n = Some u \<longrightarrow>
               common_type eng t u \<noteq> None"
  shows "\<exists>U. unionByName eng A B = Inr U \<and>
             fst (union_dataframes eng (Some A) (Some B) w) =
               (case diagnosed eng 10 U of Inl e \<Rightarrow> Inr None | Inr u \<Rightarrow> Inr (Some u)) \<and>
             columns U = columns A @ filter (\<lambda>n. \<not> has_column eng A n) (columns B) \<and>
             norm_name eng ` set (columns U) =
               norm_name eng ` set (columns A) \<union> norm_name eng ` set (columns B) \<and>
             (caseSensitive eng \<longrightarrow> set (columns U) = set (columns A) \<union> set (columns B)) \<and>
             count U = count A + count B \<and>
             (\<forall>i j. i < count A \<and> j < length (columns U) \<and> \<not> has_column eng A (columns U ! j) \<longrightarrow>
                    rows U ! i ! j = None) \<and>
             (\<forall>i j. i < count B \<and> j < length (columns U) \<and> \<not> has_column eng B (columns U ! j) \<longrightarrow>
                    rows U ! (count A + i) ! j = None)"
proof -
  let ?cols = "columns A @ filter (\<lambda>n. \<not> has_column eng A n) (columns B)"
  let ?fA = "\<lambda>r. map (\<lambda>((n, t, u, k), c). coerce eng t (case k of None \<Rightarrow> t | Some ty \<Rightarrow> ty) c)
                         (zip (aligned eng A B) r)
                    @ replicate (length (right_only eng A B)) None"
  let ?fB = "\<lambda>r. map (\<lambda>(n, t, u, k). coerce eng u (case k of None \<Rightarrow> t | Some ty \<Rightarrow> ty)
                                               (cell_of eng B r n))
                           (aligned eng A B)
                      @ map snd (filter (\<lambda>((n, t), c). \<not> has_column eng A n)
                                        (zip (schema B) r))"
  let ?U = "\<lparr>schema = map (\<lambda>(n, t, u, k). (n, case k of None \<Rightarrow> t | Some ty \<Rightarrow> ty)) (aligned eng A B)
                  @ right_only eng A B,
             rows = map ?fA (rows A) @ map ?fB (rows B)\<rparr>"
  have u: "unionByName eng A B = Inr ?U"
    by (rule unionByName_ok [OF dA dB ty])
  have res: "fst (union_dataframes eng (Some A) (Some B) w) =
               (case diagnosed eng 10 ?U of Inl e \<Rightarrow> Inr None | Inr u \<Rightarrow> Inr (Some u))"
    by (simp add: union_dataframes_def u diagnosed_def split: option.split)
  have cols: "columns ?U = ?cols"
    using union_columns [of eng A B] by (simp add: columns_def)
  have norm: "norm_name eng ` set ?cols =
              norm_name eng ` set (columns A) \<union> norm_name eng ` set (columns B)"
    by (auto simp add: has_column_iff)
  have cs: "caseSensitive eng \<longrightarrow> set ?cols = set (columns A) \<union> set (columns B)"
    by (auto simp add: has_column_iff norm_name_def)
  have cnt: "count ?U = count A + count B"
    by (simp add: count_def)
  have left: "\<forall>i j. i < count A \<and> j < length ?cols \<and> \<not> has_column eng A (?cols ! j) \<longrightarrow>
                    rows ?U ! i ! j = None"
  proof (intro allI impI)
    fix i j assume h: "i < count A \<and> j < length ?cols \<and> \<not> has_column eng A (?cols ! j)"
    then have i: "i < length (rows A)" by (simp add: count_def)
    then have "length (rows A ! i) = length (schema A)"
      using cA by (simp add: conforms_iff)
    then have "?fA (rows A ! i) ! j = None"
      using h by (intro left_row_null) simp_all
    moreover have "rows ?U ! i = ?fA (rows A ! i)"
      using i by (simp add: nth_append)
    ultimately show "rows ?U ! i ! j = None" by simp
  qed
  have right: "\<forall>i j. i < count B \<and> j < length ?cols \<and> \<not> has_column eng B (?cols ! j) \<longrightarrow>
                    rows ?U ! (count A + i) ! j = None"
  proof (intro allI impI)
    fix i j assume h: "i < count B \<and> j < length ?cols \<and> \<not> has_column eng B (?cols ! j)"
    then have i: "i < length (rows B)" by (simp add: count_def)
    have "?fB (rows B ! i) ! j = None"
      using h by (intro right_row_null) simp_all
    moreover have "rows ?U ! (count A + i) = ?fB (rows B ! i)"
      using i by (simp add: nth_append count_def)
    ultimately show "rows ?U ! (count A + i) ! j = None" by simp
  qed
  have norm': "norm_name eng ` set (columns ?U) =
               norm_name eng ` set (columns A) \<union> norm_name eng ` set (columns B)"
    using norm by (simp only: cols)
  have cs': "caseSensitive eng \<longrightarrow> set (columns ?U) = set (columns A) \<union> set (columns B)"
    using cs by (simp only: cols)
  have left': "\<forall>i j. i < count A \<and> j < length (columns ?U) \<and>
                     \<not> has_column eng A (columns ?U ! j) \<longrightarrow> rows ?U ! i ! j = None"
    using left by (simp only: cols)
  have right': "\<forall>i j. i < count B \<and> j < length (columns ?U) \<and>
                      \<not> has_column eng B (columns ?U ! j) \<longrightarrow>
                      rows ?U ! (count A + i) ! j = None"
    using right by (simp only: cols)
  show ?thesis
    by (intro exI [of _ ?U] conjI) (fact u res cols norm' cs' cnt left' right')+
qed

lemma union_A_B:
  "unionByName (sample_engine False) table_A table_B =
   Inr \<lparr>schema = [(ascii ''x'', LongType), (ascii ''y'', StringType), (ascii ''z'', LongType)],
        rows = [[Some ''1'', Some ''u'', None], [Some ''2'', None, None],
                [None, Some ''v'', Some ''3'']]\<rparr>"
  by code_simp

lemma distinct_A: "distinct (map (norm_name (sample_engine False)) (columns table_A))"
  by code_simp

lemma distinct_B: "distinct (map (norm_name (sample_engine False)) (columns table_B))"
  by code_simp

lemma type_of_B_x: "type_of (sample_engine False) table_B (ascii ''x'') = None"
  by code_simp

lemma type_of_B_y: "type_of (sample_engine False) table_B (ascii ''y'') = Some StringType"
  by code_simp

lemma common_String: "common_type (sample_engine False) StringType StringType = Some StringType"
  by code_simp

lemma types_A_B:
  "\<forall>(n, t) \<in> set (schema table_A). \<forall>u. type_of (sample_engine False) table_B n = Some u \<longrightarrow>
     common_type (sample_engine False) t u \<noteq> None"
  by (simp add: table_A_def type_of_B_x type_of_B_y common_String)

theorem union_by_name_witness:
  "conforms table_A \<and>
   distinct (map (norm_name (sample_engine False)) (columns table_A)) \<and>
   distinct (map (norm_name (sample_engine False)) (columns table_B)) \<and>
   type_of (sample_engine False) table_B (ascii ''x'') = None \<and>
   type_of (sample_engine False) table_B (ascii ''y'') = Some StringType \<and>
   common_type (sample_engine False) StringType StringType = Some StringType \<and>
   (\<exists>U. fst (union_dataframes (sample_engine False) (Some table_A) (Some table_B) start) =
          Inr (Some U) \<and>
        columns U = [ascii ''x'', ascii ''y'', ascii ''z''] \<and>
        count U = count table_A + count table_B \<and>
        rows U ! 0 ! 2 = None \<and> rows U ! 1 ! 2 = None \<and> rows U ! 2 ! 0 = None)"
  using union_by_name [OF conforms_A distinct_A distinct_B types_A_B, where w = start]
    conforms_A distinct_A distinct_B type_of_B_x type_of_B_y common_String union_A_B
  by (auto simp add: diagnosed_sample table_A_def table_B_def count_def columns_def)

end
